theory Spec2Isabelle
  imports Main
begin

section \<open>MAD.h: the managed decoder session over the native decoding engine\<close>

text \<open>
  The header declares the public enumeration \<open>MAD::Error\<close> and the class
  \<open>MAD::Decoder\<close>, a session object holding three native pointers (stream, frame,
  synth) to blocks of the decoding engine. Every member of the class is a forwarding
  call into the engine or a read of one field of an engine block. The engine itself
  (its struct declarations, its routines, its macro \<open>MAD_RECOVERABLE\<close>) is not part
  of the header: its routines are taken as parameters (the record \<open>engine\<close>), its
  structs are modelled by the fields the header reads and writes plus an opaque
  remainder. Where a statement needs more of the engine than that, the part is
  modelled from the spec and marked so.
\<close>

subsection \<open>The enumeration \<open>MAD::Error\<close> (lines 9 to 32)\<close>

text \<open>
  One constructor per enumerator, in declaration order. The enumerator \<open>None\<close> is
  written \<open>Error_None\<close>, the name \<open>None\<close> being taken by the option type.
\<close>

datatype Error =
    Error_None
  | BufferLength
  | BufferData
  | Memory
  | LostSync
  | BadLayer
  | BadBitRate
  | BadSampleRate
  | BadEmphasis
  | BadCRC
  | BadBitAlloc
  | BadScaleFactor
  | BadMode
  | BadFrameLength
  | BadBigValues
  | BadBlockType
  | BadSCFSI
  | BadData
  | BadAudioLength
  | BadHuffmanTable
  | BadHuffmanData
  | BadStero

text \<open>The initialiser of each enumerator: its numeric value.\<close>

fun Error_value :: "Error \<Rightarrow> int" where
  "Error_value Error_None = 0x0000"
| "Error_value BufferLength = 0x0001"
| "Error_value BufferData = 0x0002"
| "Error_value Memory = 0x0031"
| "Error_value LostSync = 0x0101"
| "Error_value BadLayer = 0x0102"
| "Error_value BadBitRate = 0x0103"
| "Error_value BadSampleRate = 0x0104"
| "Error_value BadEmphasis = 0x0105"
| "Error_value BadCRC = 0x0201"
| "Error_value BadBitAlloc = 0x0211"
| "Error_value BadScaleFactor = 0x0221"
| "Error_value BadMode = 0x0222"
| "Error_value BadFrameLength = 0x0231"
| "Error_value BadBigValues = 0x0232"
| "Error_value BadBlockType = 0x0233"
| "Error_value BadSCFSI = 0x0234"
| "Error_value BadData = 0x0235"
| "Error_value BadAudioLength = 0x0236"
| "Error_value BadHuffmanTable = 0x0237"
| "Error_value BadHuffmanData = 0x0238"
| "Error_value BadStero = 0x0239"

text \<open>The enumerators, in declaration order.\<close>

definition Error_enumerators :: "Error list" where
  "Error_enumerators =
     [Error_None, BufferLength, BufferData, Memory, LostSync, BadLayer, BadBitRate,
      BadSampleRate, BadEmphasis, BadCRC, BadBitAlloc, BadScaleFactor, BadMode,
      BadFrameLength, BadBigValues, BadBlockType, BadSCFSI, BadData, BadAudioLength,
      BadHuffmanTable, BadHuffmanData, BadStero]"

text \<open>
  A value of the managed enumeration is its underlying integer: a variable of type
  \<open>Error\<close> holds any integer of that width, the 22 enumerators name 22 of them, and
  \<open>Error_value e\<close> is the value that the enumerator \<open>e\<close> denotes. The engine's error
  code is a C enumeration, an integer of the same width. The two casts of the \<open>Error\<close>
  property are \<open>static_cast\<close>s between the two enumerations: they keep the integer,
  check no range and never fail.
\<close>

type_synonym managed_Error = int

definition cast_to_Error :: "int \<Rightarrow> managed_Error" where
  "cast_to_Error code = code"

definition cast_to_mad_error :: "managed_Error \<Rightarrow> int" where
  "cast_to_mad_error v = v"

text \<open>The enumerator that carries a code, if there is one.\<close>

fun find_code :: "Error list \<Rightarrow> int \<Rightarrow> Error option" where
  "find_code [] code = None"
| "find_code (e # es) code = (if Error_value e = code then Some e else find_code es code)"

definition Error_of_code :: "int \<Rightarrow> Error option" where
  "Error_of_code code = find_code Error_enumerators code"

subsection \<open>The engine's blocks and the native heap\<close>

type_synonym addr = nat

text \<open>
  \<open>mad_stream\<close>: the header reads \<open>this_frame\<close>, \<open>next_frame\<close> and \<open>error\<close>, and
  writes \<open>error\<close>. Everything else in the struct belongs to the engine
  (\<open>stream_rest\<close>). Pointers are addresses, \<open>0\<close> the null pointer.
\<close>

record 's mad_stream =
  this_frame :: addr
  next_frame :: addr
  error :: int
  stream_rest :: 's

text \<open>
  \<open>mad_synth\<close>: the header reads \<open>pcm.samplerate\<close>, \<open>pcm.channels\<close> and
  \<open>pcm.samples\<close> (the last as the address it converts to).
\<close>

record mad_pcm =
  samplerate :: int
  channels :: int
  samples :: addr

record 'y mad_synth =
  pcm :: mad_pcm
  synth_rest :: 'y

text \<open>
  The native heap: the blocks obtained with \<open>new\<close>, by address. A block is held for
  as long as its address is bound. \<open>mad_frame\<close> is opaque to the header (\<open>'f\<close>).
  \<open>new\<close> takes an address that is neither null nor bound, and always finds one.
\<close>

datatype ('s, 'f, 'y) block =
    StreamBlock "'s mad_stream"
  | FrameBlock 'f
  | SynthBlock "'y mad_synth"

type_synonym ('s, 'f, 'y) heap = "(addr \<times> ('s, 'f, 'y) block) list"

text \<open>
  What a member of the class can go wrong with: a null pointer, or a pointer to no
  block of the expected kind, is dereferenced (the header checks neither).
\<close>

datatype fault =
    NullPointer
  | InvalidPointer addr

definition new_addr :: "('s, 'f, 'y) heap \<Rightarrow> addr" where
  "new_addr h = Suc (fold max (map fst h) 0)"

definition new_block :: "('s, 'f, 'y) block \<Rightarrow> ('s, 'f, 'y) heap \<Rightarrow> addr \<times> ('s, 'f, 'y) heap" where
  "new_block b h = (new_addr h, (new_addr h, b) # h)"

definition held :: "('s, 'f, 'y) heap \<Rightarrow> addr \<Rightarrow> bool" where
  "held h a = (map_of h a \<noteq> None)"

definition get_stream :: "('s, 'f, 'y) heap \<Rightarrow> addr \<Rightarrow> fault + 's mad_stream" where
  "get_stream h a =
     (if a = 0 then Inl NullPointer
      else case map_of h a of
             Some (StreamBlock s) \<Rightarrow> Inr s
           | _ \<Rightarrow> Inl (InvalidPointer a))"

definition get_frame :: "('s, 'f, 'y) heap \<Rightarrow> addr \<Rightarrow> fault + 'f" where
  "get_frame h a =
     (if a = 0 then Inl NullPointer
      else case map_of h a of
             Some (FrameBlock f) \<Rightarrow> Inr f
           | _ \<Rightarrow> Inl (InvalidPointer a))"

definition get_synth :: "('s, 'f, 'y) heap \<Rightarrow> addr \<Rightarrow> fault + 'y mad_synth" where
  "get_synth h a =
     (if a = 0 then Inl NullPointer
      else case map_of h a of
             Some (SynthBlock y) \<Rightarrow> Inr y
           | _ \<Rightarrow> Inl (InvalidPointer a))"

text \<open>Writing a block back through a pointer that was read.\<close>

definition put_block :: "addr \<Rightarrow> ('s, 'f, 'y) block \<Rightarrow> ('s, 'f, 'y) heap \<Rightarrow> ('s, 'f, 'y) heap" where
  "put_block a b h = (a, b) # filter (\<lambda>p. fst p \<noteq> a) h"

text \<open>Sequencing of steps that may fault.\<close>

definition and_then :: "fault + 'a \<Rightarrow> ('a \<Rightarrow> fault + 'b) \<Rightarrow> fault + 'b" where
  "and_then r k = (case r of Inl e \<Rightarrow> Inl e | Inr x \<Rightarrow> k x)"

fun ok :: "fault + 'a \<Rightarrow> bool" where
  "ok (Inr x) = True"
| "ok (Inl e) = False"

subsection \<open>The engine\<close>

text \<open>
  Modelled from the spec: what one decode of the engine comes to; the engine's decode
  is not in the header. By the spec a decode is a success or a failure, and a failure
  has an error of the taxonomy as its cause. Either way the engine leaves a frame and
  a stream block behind.
\<close>

datatype ('f, 's) decode_outcome =
    Decoded 'f "'s mad_stream"
  | Failed Error 'f "'s mad_stream"

text \<open>Modelled from the spec: the outcome is the success.\<close>

fun succeeded :: "('f, 's) decode_outcome \<Rightarrow> bool" where
  "succeeded (Decoded f s) = True"
| "succeeded (Failed cause f s) = False"

text \<open>
  The routines of the engine that the header calls, as functions of the contents of the
  blocks they are handed by pointer, returning the contents they leave there. The input
  bytes that the decode reads stay inside the parameter: the header never touches
  them. A routine works on the block behind the pointer it is given and does not
  dispose of the block: the blocks come from the header's \<open>new\<close>, and only a
  \<open>delete\<close> of the header could release them. \<open>frame_decode\<close> is the decoding
  proper, behind the routine \<open>mad_frame_decode\<close> below; \<open>error_message\<close> is the
  engine's table of message strings.
\<close>

record ('s, 'f, 'y) engine =
  mad_stream_init :: "'s mad_stream \<Rightarrow> 's mad_stream"
  mad_frame_init :: "'f \<Rightarrow> 'f"
  mad_synth_init :: "'y mad_synth \<Rightarrow> 'y mad_synth"
  mad_stream_finish :: "'s mad_stream \<Rightarrow> 's mad_stream"
  mad_frame_finish :: "'f \<Rightarrow> 'f"
  mad_synth_finish :: "'y mad_synth \<Rightarrow> 'y mad_synth"
  mad_stream_buffer :: "'s mad_stream \<Rightarrow> addr \<Rightarrow> int \<Rightarrow> 's mad_stream"
  frame_decode :: "'f \<Rightarrow> 's mad_stream \<Rightarrow> ('f, 's) decode_outcome"
  mad_synth_frame :: "'y mad_synth \<Rightarrow> 'f \<Rightarrow> 'y mad_synth \<times> 'f"
  error_message :: "int \<Rightarrow> string"

text \<open>
  Modelled from the spec: the engine's routine \<open>mad_frame_decode\<close> is not in the
  header. By the spec a frame decode succeeds or fails, every failure is reported by
  the sentinel return value together with the error code, and a failed decode sets the
  stream's current error code. So: a failure returns the sentinel (the \<open>-1\<close> that the
  header tests for) and stores the code of its cause in the stream's \<open>error\<close> field;
  a success returns another value, taken to be \<open>0\<close>, and leaves the stream as the
  decoding left it. What is decoded, and which error a failure has, is the engine's.
\<close>

definition mad_frame_decode ::
  "('s, 'f, 'y) engine \<Rightarrow> 'f \<Rightarrow> 's mad_stream \<Rightarrow> int \<times> 'f \<times> 's mad_stream" where
  "mad_frame_decode eng f s =
     (case frame_decode eng f s of
        Decoded f' s' \<Rightarrow> (0, f', s')
      | Failed cause f' s' \<Rightarrow> (- 1, f', s'\<lparr>error := Error_value cause\<rparr>))"

text \<open>
  Modelled from the spec: the engine's classification of its error codes is not in the
  header. The spec sorts the codes into two tiers, each code with a fixed
  recoverability flag: fatal (buffer invalid, out-of-memory) and recoverable (any
  stream-content malformation: bad header fields, bad Huffman data, bad CRC, sync
  loss). The fatal tier is the two buffer codes and the memory code.
\<close>

fun fatal_error :: "Error \<Rightarrow> bool" where
  "fatal_error BufferLength = True"
| "fatal_error BufferData = True"
| "fatal_error Memory = True"
| "fatal_error e = False"

text \<open>
  Modelled from the spec: the recoverable tier, which the header does not have either.
  With two tiers, a stream-content malformation is any error that is not fatal; no
  error (\<open>None\<close>) is neither.
\<close>

definition stream_content_malformation :: "Error \<Rightarrow> bool" where
  "stream_content_malformation e = (e \<noteq> Error_None \<and> \<not> fatal_error e)"

text \<open>
  Modelled from the spec: the engine's macro \<open>MAD_RECOVERABLE\<close> is not in the header.
  It is applied to the engine's code and gives the recoverability flag of that code:
  true for the codes of the recoverable tier. A code outside the taxonomy is no member
  of that tier.
\<close>

definition MAD_RECOVERABLE :: "int \<Rightarrow> bool" where
  "MAD_RECOVERABLE code =
     (case Error_of_code code of
        None \<Rightarrow> False
      | Some e \<Rightarrow> stream_content_malformation e)"

text \<open>
  Modelled from the spec: the engine's routine \<open>mad_stream_errorstr\<close> is not in the
  header. The spec gives each error code a fixed message string, and the error message
  of a session is the string for its current error: the routine looks the stream's
  code up in the engine's table. The strings themselves are the engine's.
\<close>

definition mad_stream_errorstr :: "('s, 'f, 'y) engine \<Rightarrow> 's mad_stream \<Rightarrow> string" where
  "mad_stream_errorstr eng s = error_message eng (error s)"

text \<open>A call of an engine routine on one block, through its pointer.\<close>

definition call_stream ::
  "('s mad_stream \<Rightarrow> 's mad_stream) \<Rightarrow> ('s, 'f, 'y) heap \<Rightarrow> addr \<Rightarrow> fault + ('s, 'f, 'y) heap" where
  "call_stream g h a =
     and_then (get_stream h a) (\<lambda>s. Inr (put_block a (StreamBlock (g s)) h))"

definition call_frame ::
  "('f \<Rightarrow> 'f) \<Rightarrow> ('s, 'f, 'y) heap \<Rightarrow> addr \<Rightarrow> fault + ('s, 'f, 'y) heap" where
  "call_frame g h a =
     and_then (get_frame h a) (\<lambda>f. Inr (put_block a (FrameBlock (g f)) h))"

definition call_synth ::
  "('y mad_synth \<Rightarrow> 'y mad_synth) \<Rightarrow> ('s, 'f, 'y) heap \<Rightarrow> addr \<Rightarrow> fault + ('s, 'f, 'y) heap" where
  "call_synth g h a =
     and_then (get_synth h a) (\<lambda>y. Inr (put_block a (SynthBlock (g y)) h))"

subsection \<open>The class \<open>MAD::Decoder\<close> (lines 37 to 165)\<close>

text \<open>
  The private fields \<open>_Stream\<close>, \<open>_Frame\<close> and \<open>_Synth\<close>. A freshly constructed
  managed object has them null.
\<close>

record Decoder =
  ptr_Stream :: addr
  ptr_Frame :: addr
  ptr_Synth :: addr

definition new_Decoder :: Decoder where
  "new_Decoder = \<lparr>ptr_Stream = 0, ptr_Frame = 0, ptr_Synth = 0\<rparr>"

text \<open>\<open>new T()\<close> value-initialises the block: every field is zero.\<close>

definition zero_stream :: "('s::zero) mad_stream" where
  "zero_stream = \<lparr>this_frame = 0, next_frame = 0, error = 0, stream_rest = 0\<rparr>"

definition zero_synth :: "('y::zero) mad_synth" where
  "zero_synth = \<lparr>pcm = \<lparr>samplerate = 0, channels = 0, samples = 0\<rparr>, synth_rest = 0\<rparr>"

text \<open>
  \<open>Initialize\<close> (lines 42 to 49): three \<open>new\<close>, then the three init routines.
  Member functions returning \<open>void\<close> yield the heap they leave (and the object, when
  they assign its fields).
\<close>

definition Initialize ::
  "('s::zero, 'f::zero, 'y::zero) engine \<Rightarrow> ('s, 'f, 'y) heap \<Rightarrow> Decoder
     \<Rightarrow> fault + (('s, 'f, 'y) heap \<times> Decoder)" where
  "Initialize eng h d =
     (case new_block (StreamBlock zero_stream) h of (a1, h1) \<Rightarrow>
      case new_block (FrameBlock 0) h1 of (a2, h2) \<Rightarrow>
      case new_block (SynthBlock zero_synth) h2 of (a3, h3) \<Rightarrow>
        and_then (call_stream (mad_stream_init eng) h3 a1) (\<lambda>h4.
        and_then (call_frame (mad_frame_init eng) h4 a2) (\<lambda>h5.
        and_then (call_synth (mad_synth_init eng) h5 a3) (\<lambda>h6.
          Inr (h6, d\<lparr>ptr_Stream := a1, ptr_Frame := a2, ptr_Synth := a3\<rparr>)))))"

text \<open>\<open>Terminate\<close> (lines 54 to 58): the three finish routines, and nothing else.\<close>

definition Terminate ::
  "('s, 'f, 'y) engine \<Rightarrow> ('s, 'f, 'y) heap \<Rightarrow> Decoder \<Rightarrow> fault + ('s, 'f, 'y) heap" where
  "Terminate eng h d =
     and_then (call_stream (mad_stream_finish eng) h (ptr_Stream d)) (\<lambda>h1.
     and_then (call_frame (mad_frame_finish eng) h1 (ptr_Frame d)) (\<lambda>h2.
       call_synth (mad_synth_finish eng) h2 (ptr_Synth d)))"

text \<open>\<open>SetInput\<close> (lines 63 to 65).\<close>

definition SetInput ::
  "('s, 'f, 'y) engine \<Rightarrow> ('s, 'f, 'y) heap \<Rightarrow> Decoder \<Rightarrow> addr \<Rightarrow> int
     \<Rightarrow> fault + ('s, 'f, 'y) heap" where
  "SetInput eng h d Buffer Length =
     call_stream (\<lambda>s. mad_stream_buffer eng s Buffer Length) h (ptr_Stream d)"

text \<open>The literal \<open>FrameSampleCount\<close> (line 70).\<close>

definition FrameSampleCount :: int where
  "FrameSampleCount = 1152"

text \<open>The read-only properties (lines 75 to 115).\<close>

definition CurrentFrame :: "('s, 'f, 'y) heap \<Rightarrow> Decoder \<Rightarrow> fault + addr" where
  "CurrentFrame h d = and_then (get_stream h (ptr_Stream d)) (\<lambda>s. Inr (this_frame s))"

definition NextFrame :: "('s, 'f, 'y) heap \<Rightarrow> Decoder \<Rightarrow> fault + addr" where
  "NextFrame h d = and_then (get_stream h (ptr_Stream d)) (\<lambda>s. Inr (next_frame s))"

definition SampleRate :: "('s, 'f, 'y) heap \<Rightarrow> Decoder \<Rightarrow> fault + int" where
  "SampleRate h d = and_then (get_synth h (ptr_Synth d)) (\<lambda>y. Inr (samplerate (pcm y)))"

definition Channels :: "('s, 'f, 'y) heap \<Rightarrow> Decoder \<Rightarrow> fault + int" where
  "Channels h d = and_then (get_synth h (ptr_Synth d)) (\<lambda>y. Inr (channels (pcm y)))"

definition Output :: "('s, 'f, 'y) heap \<Rightarrow> Decoder \<Rightarrow> fault + addr" where
  "Output h d = and_then (get_synth h (ptr_Synth d)) (\<lambda>y. Inr (samples (pcm y)))"

text \<open>
  The property \<open>Error\<close> (lines 120 to 127). The getter casts the stream's code to the
  managed enumeration, the setter stores the cast of its argument. Reading or setting
  the enumerator \<open>e\<close> is reading or setting the value \<open>Error_value e\<close>.
\<close>

definition Error_get :: "('s, 'f, 'y) heap \<Rightarrow> Decoder \<Rightarrow> fault + managed_Error" where
  "Error_get h d =
     and_then (get_stream h (ptr_Stream d)) (\<lambda>s. Inr (cast_to_Error (error s)))"

definition Error_set ::
  "managed_Error \<Rightarrow> ('s, 'f, 'y) heap \<Rightarrow> Decoder \<Rightarrow> fault + ('s, 'f, 'y) heap" where
  "Error_set v h d =
     call_stream (\<lambda>s. s\<lparr>error := cast_to_mad_error v\<rparr>) h (ptr_Stream d)"

text \<open>The properties \<open>ErrorRecoverable\<close> and \<open>ErrorMessage\<close> (lines 132 to 145).\<close>

definition ErrorRecoverable :: "('s, 'f, 'y) heap \<Rightarrow> Decoder \<Rightarrow> fault + bool" where
  "ErrorRecoverable h d =
     and_then (get_stream h (ptr_Stream d)) (\<lambda>s. Inr (MAD_RECOVERABLE (error s)))"

definition ErrorMessage ::
  "('s, 'f, 'y) engine \<Rightarrow> ('s, 'f, 'y) heap \<Rightarrow> Decoder \<Rightarrow> fault + string" where
  "ErrorMessage eng h d =
     and_then (get_stream h (ptr_Stream d)) (\<lambda>s. Inr (mad_stream_errorstr eng s))"

text \<open>
  \<open>DecodeFrame\<close> (lines 150 to 152): the engine's return code compared with \<open>-1\<close>;
  the engine may have written the frame and the stream block.
\<close>

definition DecodeFrame ::
  "('s, 'f, 'y) engine \<Rightarrow> ('s, 'f, 'y) heap \<Rightarrow> Decoder \<Rightarrow> fault + (bool \<times> ('s, 'f, 'y) heap)" where
  "DecodeFrame eng h d =
     and_then (get_frame h (ptr_Frame d)) (\<lambda>f.
     and_then (get_stream h (ptr_Stream d)) (\<lambda>s.
       case mad_frame_decode eng f s of (rc, f', s') \<Rightarrow>
         Inr (rc \<noteq> - 1,
              put_block (ptr_Stream d) (StreamBlock s')
                (put_block (ptr_Frame d) (FrameBlock f') h))))"

text \<open>
  \<open>SynthFrame\<close> (lines 157 to 159): the engine is handed the synth and the frame
  block, and may have written both.
\<close>

definition SynthFrame ::
  "('s, 'f, 'y) engine \<Rightarrow> ('s, 'f, 'y) heap \<Rightarrow> Decoder \<Rightarrow> fault + ('s, 'f, 'y) heap" where
  "SynthFrame eng h d =
     and_then (get_synth h (ptr_Synth d)) (\<lambda>y.
     and_then (get_frame h (ptr_Frame d)) (\<lambda>f.
       case mad_synth_frame eng y f of (y', f') \<Rightarrow>
         Inr (put_block (ptr_Frame d) (FrameBlock f')
                (put_block (ptr_Synth d) (SynthBlock y') h))))"

text \<open>
  A session is initialised in a heap when its three pointers lead to blocks of their
  kinds; the header leaves every other use undefined.
\<close>

definition initialized :: "('s, 'f, 'y) heap \<Rightarrow> Decoder \<Rightarrow> bool" where
  "initialized h d =
     (ok (get_stream h (ptr_Stream d)) \<and> ok (get_frame h (ptr_Frame d))
      \<and> ok (get_synth h (ptr_Synth d)))"

subsection \<open>A concrete session\<close>

text \<open>
  A small engine on which the statements below are instantiated. Its stream keeps the
  number of input bytes left, its frame block counts the frames decoded, its synth
  block counts the frames synthesised. Decoding with no input left fails, the cause
  being \<open>BufferLength\<close>.
\<close>

definition sample_engine :: "(nat, nat, nat) engine" where
  "sample_engine =
     \<lparr>mad_stream_init =
        (\<lambda>s. s\<lparr>this_frame := 0, next_frame := 0, error := 0, stream_rest := 0\<rparr>),
      mad_frame_init = (\<lambda>f. 0),
      mad_synth_init =
        (\<lambda>y. y\<lparr>pcm := \<lparr>samplerate = 0, channels = 0, samples = 0\<rparr>, synth_rest := 0\<rparr>),
      mad_stream_finish = (\<lambda>s. s),
      mad_frame_finish = (\<lambda>f. f),
      mad_synth_finish = (\<lambda>y. y),
      mad_stream_buffer =
        (\<lambda>s b n. s\<lparr>this_frame := b, next_frame := b, stream_rest := nat n\<rparr>),
      frame_decode =
        (\<lambda>f s.
           if stream_rest s = 0 then Failed BufferLength f s
           else Decoded (Suc f)
                  (s\<lparr>this_frame := next_frame s, next_frame := Suc (next_frame s),
                     stream_rest := stream_rest s - 1\<rparr>)),
      mad_synth_frame =
        (\<lambda>y f.
           (y\<lparr>pcm := \<lparr>samplerate = 44100, channels = 2, samples = 64\<rparr>,
              synth_rest := Suc (synth_rest y)\<rparr>, f)),
      error_message = (\<lambda>c. if c = 0 then ''no error'' else ''error'')\<rparr>"

text \<open>The session that \<open>Initialize\<close> builds with this engine in the empty heap.\<close>

definition sample_stream :: "nat mad_stream" where
  "sample_stream = \<lparr>this_frame = 0, next_frame = 0, error = 0, stream_rest = 0\<rparr>"

definition sample_synth :: "nat mad_synth" where
  "sample_synth = \<lparr>pcm = \<lparr>samplerate = 0, channels = 0, samples = 0\<rparr>, synth_rest = 0\<rparr>"

definition sample_heap :: "(nat, nat, nat) heap" where
  "sample_heap = [(3, SynthBlock sample_synth), (2, FrameBlock 0), (1, StreamBlock sample_stream)]"

definition sample_decoder :: Decoder where
  "sample_decoder = \<lparr>ptr_Stream = 1, ptr_Frame = 2, ptr_Synth = 3\<rparr>"

section \<open>Properties\<close>

subsection \<open>The enumerators and the engine's codes\<close>

lemma Error_of_code_value: "Error_of_code (Error_value e) = Some e"
  by (cases e) (simp_all add: Error_of_code_def Error_enumerators_def)

lemma find_code_sound: "find_code es c = Some e \<Longrightarrow> Error_value e = c"
  by (induction es) (auto split: if_splits)

lemma Error_of_code_sound: "Error_of_code c = Some e \<Longrightarrow> Error_value e = c"
  unfolding Error_of_code_def by (rule find_code_sound)

subsection \<open>The heap\<close>

lemma map_of_put_block:
  "map_of (put_block a b h) x = (if x = a then Some b else map_of h x)"
  unfolding put_block_def by (induction h) auto

lemma get_stream_iff:
  "get_stream h a = Inr s \<longleftrightarrow> a \<noteq> 0 \<and> map_of h a = Some (StreamBlock s)"
  by (auto simp: get_stream_def split: option.splits block.splits)

lemma get_frame_iff:
  "get_frame h a = Inr f \<longleftrightarrow> a \<noteq> 0 \<and> map_of h a = Some (FrameBlock f)"
  by (auto simp: get_frame_def split: option.splits block.splits)

lemma get_synth_iff:
  "get_synth h a = Inr y \<longleftrightarrow> a \<noteq> 0 \<and> map_of h a = Some (SynthBlock y)"
  by (auto simp: get_synth_def split: option.splits block.splits)

lemma ok_iff: "ok r \<longleftrightarrow> (\<exists>x. r = Inr x)"
  by (cases r) auto

text \<open>
  A write through one pointer is not seen through a pointer of another kind: where a
  frame or a synth block lies, no stream block does, before the write or after it.
\<close>

lemma get_stream_put_frame:
  "get_frame h b = Inr f \<Longrightarrow> get_stream (put_block b (FrameBlock f') h) a = get_stream h a"
  by (auto simp: get_stream_def get_frame_iff map_of_put_block)

lemma get_stream_put_synth:
  "get_synth h b = Inr y \<Longrightarrow> get_stream (put_block b (SynthBlock y') h) a = get_stream h a"
  by (auto simp: get_stream_def get_synth_iff map_of_put_block)

lemma get_frame_put_synth:
  "get_synth h b = Inr y \<Longrightarrow> get_frame (put_block b (SynthBlock y') h) a = get_frame h a"
  by (auto simp: get_frame_def get_synth_iff map_of_put_block)

lemma get_frame_put_stream:
  "get_stream h b = Inr s \<Longrightarrow> get_frame (put_block b (StreamBlock s') h) a = get_frame h a"
  by (auto simp: get_frame_def get_stream_iff map_of_put_block)

lemma get_synth_put_stream:
  "get_stream h b = Inr s \<Longrightarrow> get_synth (put_block b (StreamBlock s') h) a = get_synth h a"
  by (auto simp: get_synth_def get_stream_iff map_of_put_block)

lemma get_synth_put_frame:
  "get_frame h b = Inr f \<Longrightarrow> get_synth (put_block b (FrameBlock f') h) a = get_synth h a"
  by (auto simp: get_synth_def get_frame_iff map_of_put_block)

lemma get_stream_put_same:
  "a \<noteq> 0 \<Longrightarrow> get_stream (put_block a (StreamBlock s) h) a = Inr s"
  by (simp add: get_stream_def map_of_put_block)

lemma get_frame_put_same:
  "a \<noteq> 0 \<Longrightarrow> get_frame (put_block a (FrameBlock f) h) a = Inr f"
  by (simp add: get_frame_def map_of_put_block)

lemma get_synth_put_same:
  "a \<noteq> 0 \<Longrightarrow> get_synth (put_block a (SynthBlock y) h) a = Inr y"
  by (simp add: get_synth_def map_of_put_block)

subsection \<open>The concrete session\<close>

lemmas sample_defs =
  sample_engine_def sample_heap_def sample_decoder_def sample_stream_def sample_synth_def

lemma Initialize_sample:
  "Initialize sample_engine [] new_Decoder = Inr (sample_heap, sample_decoder)"
  by (simp add: Initialize_def new_block_def new_addr_def call_stream_def call_frame_def
      call_synth_def and_then_def get_stream_def get_frame_def get_synth_def put_block_def
      zero_stream_def zero_synth_def new_Decoder_def sample_defs)

lemma get_sample:
  "get_stream sample_heap (ptr_Stream sample_decoder) = Inr sample_stream"
  "get_frame sample_heap (ptr_Frame sample_decoder) = Inr 0"
  "get_synth sample_heap (ptr_Synth sample_decoder) = Inr sample_synth"
  by (simp_all add: get_stream_def get_frame_def get_synth_def sample_heap_def
      sample_decoder_def)

subsection \<open>Allocation and the engine calls\<close>

lemma fold_max_lower: "m \<le> fold max xs (m::nat)"
proof (induction xs arbitrary: m)
  case Nil
  show ?case by simp
next
  case (Cons a xs)
  have "m \<le> max a m" by simp
  also have "\<dots> \<le> fold max xs (max a m)" by (rule Cons.IH)
  finally show ?case by simp
qed

lemma fold_max_upper: "x \<in> set xs \<Longrightarrow> x \<le> fold max xs (m::nat)"
proof (induction xs arbitrary: m)
  case Nil
  then show ?case by simp
next
  case (Cons a xs)
  show ?case
  proof (cases "x = a")
    case True
    have "a \<le> max a m" by simp
    also have "\<dots> \<le> fold max xs (max a m)" by (rule fold_max_lower)
    finally show ?thesis using True by simp
  next
    case False
    then have "x \<in> set xs" using Cons.prems by simp
    then show ?thesis using Cons.IH by simp
  qed
qed

lemma new_addr_nonzero: "new_addr h \<noteq> 0"
  by (simp add: new_addr_def)

lemma new_addr_fresh: "map_of h (new_addr h) = None"
proof -
  have "new_addr h \<notin> fst ` set h"
  proof
    assume "new_addr h \<in> fst ` set h"
    then have "new_addr h \<in> set (map fst h)" by simp
    then have "new_addr h \<le> fold max (map fst h) 0" by (rule fold_max_upper)
    then show False by (simp add: new_addr_def)
  qed
  then show ?thesis by (simp add: map_of_eq_None_iff)
qed

lemma new_addr_not_held: "\<not> held h (new_addr h)"
  by (simp add: held_def new_addr_fresh)

lemma held_put_block: "held h a \<Longrightarrow> held (put_block a b h) x = held h x"
  by (simp add: held_def map_of_put_block)

lemma ok_get_stream_put:
  "ok (get_stream h a) \<Longrightarrow> ok (get_stream (put_block a (StreamBlock s) h) x) = ok (get_stream h x)"
  by (auto simp: ok_iff get_stream_iff map_of_put_block)

lemma call_stream_runs:
  assumes "ok (get_stream h a)"
  shows "\<exists>h'. call_stream g h a = Inr h' \<and> (\<forall>x. held h' x = held h x)
            \<and> (\<forall>x. ok (get_stream h' x) = ok (get_stream h x))
            \<and> (\<forall>x. get_frame h' x = get_frame h x)
            \<and> (\<forall>x. get_synth h' x = get_synth h x)"
proof -
  obtain s where s: "get_stream h a = Inr s"
    using assms by (auto simp: ok_iff)
  then have held: "held h a"
    by (simp add: get_stream_iff held_def)
  have "call_stream g h a = Inr (put_block a (StreamBlock (g s)) h)"
    by (simp add: call_stream_def and_then_def s)
  then show ?thesis
    using held_put_block [OF held] ok_get_stream_put [OF assms]
      get_frame_put_stream [OF s] get_synth_put_stream [OF s] by simp
qed

lemma ok_get_frame_put:
  "ok (get_frame h a) \<Longrightarrow> ok (get_frame (put_block a (FrameBlock f) h) x) = ok (get_frame h x)"
  by (auto simp: ok_iff get_frame_iff map_of_put_block)

lemma call_frame_runs:
  assumes "ok (get_frame h a)"
  shows "\<exists>h'. call_frame g h a = Inr h' \<and> (\<forall>x. held h' x = held h x)
            \<and> (\<forall>x. get_stream h' x = get_stream h x)
            \<and> (\<forall>x. ok (get_frame h' x) = ok (get_frame h x))
            \<and> (\<forall>x. get_synth h' x = get_synth h x)"
proof -
  obtain f where f: "get_frame h a = Inr f"
    using assms by (auto simp: ok_iff)
  then have held: "held h a"
    by (simp add: get_frame_iff held_def)
  have "call_frame g h a = Inr (put_block a (FrameBlock (g f)) h)"
    by (simp add: call_frame_def and_then_def f)
  then show ?thesis
    using held_put_block [OF held] ok_get_frame_put [OF assms]
      get_stream_put_frame [OF f] get_synth_put_frame [OF f] by simp
qed

lemma ok_get_synth_put:
  "ok (get_synth h a) \<Longrightarrow> ok (get_synth (put_block a (SynthBlock y) h) x) = ok (get_synth h x)"
  by (auto simp: ok_iff get_synth_iff map_of_put_block)

lemma call_synth_runs:
  assumes "ok (get_synth h a)"
  shows "\<exists>h'. call_synth g h a = Inr h' \<and> (\<forall>x. held h' x = held h x)
            \<and> (\<forall>x. get_stream h' x = get_stream h x)
            \<and> (\<forall>x. get_frame h' x = get_frame h x)
            \<and> (\<forall>x. ok (get_synth h' x) = ok (get_synth h x))"
proof -
  obtain y where y: "get_synth h a = Inr y"
    using assms by (auto simp: ok_iff)
  then have held: "held h a"
    by (simp add: get_synth_iff held_def)
  have "call_synth g h a = Inr (put_block a (SynthBlock (g y)) h)"
    by (simp add: call_synth_def and_then_def y)
  then show ?thesis
    using held_put_block [OF held] ok_get_synth_put [OF assms]
      get_stream_put_synth [OF y] get_frame_put_synth [OF y] by simp
qed

lemma Terminate_runs:
  assumes "initialized h d"
  shows "\<exists>h'. Terminate eng h d = Inr h' \<and> (\<forall>x. held h' x = held h x) \<and> initialized h' d"
proof -
  from assms have s: "ok (get_stream h (ptr_Stream d))"
    and f: "ok (get_frame h (ptr_Frame d))" and y: "ok (get_synth h (ptr_Synth d))"
    by (simp_all add: initialized_def)
  obtain h1 where h1: "call_stream (mad_stream_finish eng) h (ptr_Stream d) = Inr h1"
    "\<forall>x. held h1 x = held h x" "\<forall>x. ok (get_stream h1 x) = ok (get_stream h x)"
    "\<forall>x. get_frame h1 x = get_frame h x" "\<forall>x. get_synth h1 x = get_synth h x"
    using call_stream_runs [OF s] by blast
  have f1: "ok (get_frame h1 (ptr_Frame d))" using f h1 by simp
  obtain h2 where h2: "call_frame (mad_frame_finish eng) h1 (ptr_Frame d) = Inr h2"
    "\<forall>x. held h2 x = held h1 x" "\<forall>x. get_stream h2 x = get_stream h1 x"
    "\<forall>x. ok (get_frame h2 x) = ok (get_frame h1 x)" "\<forall>x. get_synth h2 x = get_synth h1 x"
    using call_frame_runs [OF f1] by blast
  have y2: "ok (get_synth h2 (ptr_Synth d))" using y h1 h2 by simp
  obtain h3 where h3: "call_synth (mad_synth_finish eng) h2 (ptr_Synth d) = Inr h3"
    "\<forall>x. held h3 x = held h2 x" "\<forall>x. get_stream h3 x = get_stream h2 x"
    "\<forall>x. get_frame h3 x = get_frame h2 x" "\<forall>x. ok (get_synth h3 x) = ok (get_synth h2 x)"
    using call_synth_runs [OF y2] by blast
  have run: "Terminate eng h d = Inr h3"
    by (simp add: Terminate_def and_then_def h1(1) h2(1) h3(1))
  have keep: "\<forall>x. held h3 x = held h x"
    using h1(2) h2(2) h3(2) by simp
  have init: "initialized h3 d"
    using s f y h1 h2 h3 by (simp add: initialized_def)
  show ?thesis using run keep init by blast
qed

lemma initialized_held:
  "initialized h d \<Longrightarrow> held h (ptr_Stream d) \<and> held h (ptr_Frame d) \<and> held h (ptr_Synth d)"
  by (auto simp: initialized_def ok_iff get_stream_iff get_frame_iff get_synth_iff held_def)

lemma Initialize_runs:
  fixes eng :: "('s::zero, 'f::zero, 'y::zero) engine"
  shows "\<exists>h' d'. Initialize eng h d = Inr (h', d') \<and> initialized h' d'
      \<and> distinct [ptr_Stream d', ptr_Frame d', ptr_Synth d']
      \<and> \<not> held h (ptr_Stream d') \<and> \<not> held h (ptr_Frame d') \<and> \<not> held h (ptr_Synth d')
      \<and> (\<forall>x. held h x \<longrightarrow> held h' x)"
proof -
  define a1 where "a1 = new_addr h"
  define h1 where "h1 = (a1, StreamBlock (zero_stream :: 's mad_stream)) # h"
  define a2 where "a2 = new_addr h1"
  define h2 where "h2 = (a2, FrameBlock (0 :: 'f)) # h1"
  define a3 where "a3 = new_addr h2"
  define h3 where "h3 = (a3, SynthBlock (zero_synth :: 'y mad_synth)) # h2"
  define d' where "d' = d\<lparr>ptr_Stream := a1, ptr_Frame := a2, ptr_Synth := a3\<rparr>"
  have nz: "a1 \<noteq> 0" "a2 \<noteq> 0" "a3 \<noteq> 0"
    by (simp_all add: a1_def a2_def a3_def new_addr_nonzero)
  have fr1: "map_of h a1 = None" by (simp add: a1_def new_addr_fresh)
  have fr2: "map_of h1 a2 = None" by (simp add: a2_def new_addr_fresh)
  have fr3: "map_of h2 a3 = None" by (simp add: a3_def new_addr_fresh)
  have ne12: "a2 \<noteq> a1" using fr2 by (auto simp: h1_def)
  have ne13: "a3 \<noteq> a1" using fr3 by (auto simp: h2_def h1_def split: if_splits)
  have ne23: "a3 \<noteq> a2" using fr3 by (auto simp: h2_def)
  have fr2': "map_of h a2 = None" using fr2 ne12 by (simp add: h1_def)
  have fr3': "map_of h a3 = None" using fr3 ne13 ne23 by (simp add: h2_def h1_def)
  have news: "new_block (StreamBlock (zero_stream :: 's mad_stream)) h = (a1, h1)"
    "new_block (FrameBlock (0 :: 'f)) h1 = (a2, h2)"
    "new_block (SynthBlock (zero_synth :: 'y mad_synth)) h2 = (a3, h3)"
    by (simp_all add: new_block_def a1_def h1_def a2_def h2_def a3_def h3_def)
  have g3: "ok (get_stream h3 a1)" "ok (get_frame h3 a2)" "ok (get_synth h3 a3)"
    using nz ne12 ne13 ne23
    by (simp_all add: get_stream_def get_frame_def get_synth_def h3_def h2_def h1_def)
  have held3: "\<forall>x. held h x \<longrightarrow> held h3 x"
    by (simp add: held_def h3_def h2_def h1_def)
  obtain h4 where h4: "call_stream (mad_stream_init eng) h3 a1 = Inr h4"
    "\<forall>x. held h4 x = held h3 x" "\<forall>x. ok (get_stream h4 x) = ok (get_stream h3 x)"
    "\<forall>x. get_frame h4 x = get_frame h3 x" "\<forall>x. get_synth h4 x = get_synth h3 x"
    using call_stream_runs [OF g3(1)] by blast
  have f4: "ok (get_frame h4 a2)" using g3 h4 by simp
  obtain h5 where h5: "call_frame (mad_frame_init eng) h4 a2 = Inr h5"
    "\<forall>x. held h5 x = held h4 x" "\<forall>x. get_stream h5 x = get_stream h4 x"
    "\<forall>x. ok (get_frame h5 x) = ok (get_frame h4 x)" "\<forall>x. get_synth h5 x = get_synth h4 x"
    using call_frame_runs [OF f4] by blast
  have y5: "ok (get_synth h5 a3)" using g3 h4 h5 by simp
  obtain h6 where h6: "call_synth (mad_synth_init eng) h5 a3 = Inr h6"
    "\<forall>x. held h6 x = held h5 x" "\<forall>x. get_stream h6 x = get_stream h5 x"
    "\<forall>x. get_frame h6 x = get_frame h5 x" "\<forall>x. ok (get_synth h6 x) = ok (get_synth h5 x)"
    using call_synth_runs [OF y5] by blast
  have run: "Initialize eng h d = Inr (h6, d')"
    by (simp add: Initialize_def news and_then_def h4(1) h5(1) h6(1) d'_def)
  have init: "initialized h6 d'"
    using g3 h4 h5 h6 by (simp add: initialized_def d'_def)
  have dist: "distinct [ptr_Stream d', ptr_Frame d', ptr_Synth d']"
    using ne12 ne13 ne23 by (auto simp: d'_def)
  have fresh: "\<not> held h (ptr_Stream d')" "\<not> held h (ptr_Frame d')" "\<not> held h (ptr_Synth d')"
    using fr1 fr2' fr3' by (simp_all add: held_def d'_def)
  have mono: "\<forall>x. held h x \<longrightarrow> held h6 x"
    using held3 h4(2) h5(2) h6(2) by simp
  show ?thesis
    using run init dist fresh mono by blast
qed

subsection \<open>Decoding a frame\<close>

text \<open>
  C1. In a session whose frame and stream pointers are valid, \<open>DecodeFrame\<close> runs and
  returns a boolean. The boolean is true exactly when the engine's return code is
  not \<open>-1\<close>, that is, exactly when the engine's frame decode succeeds. When it is
  false, the decode failed with some cause, and the \<open>Error\<close> property read after the
  call is that cause. The engine's routine is the one modelled from the spec.
\<close>

theorem DecodeFrame_result:
  assumes "ok (get_frame h (ptr_Frame d))"
    and "ok (get_stream h (ptr_Stream d))"
  shows "\<exists>f s b h'. get_frame h (ptr_Frame d) = Inr f
           \<and> get_stream h (ptr_Stream d) = Inr s
           \<and> DecodeFrame eng h d = Inr (b, h')
           \<and> b = (fst (mad_frame_decode eng f s) \<noteq> - 1)
           \<and> b = succeeded (frame_decode eng f s)
           \<and> (\<not> b \<longrightarrow> (\<exists>cause f' s'. frame_decode eng f s = Failed cause f' s'
                          \<and> Error_get h' d = Inr (Error_value cause)))"
proof -
  obtain f where f: "get_frame h (ptr_Frame d) = Inr f"
    using assms(1) by (auto simp: ok_iff)
  obtain s where s: "get_stream h (ptr_Stream d) = Inr s"
    using assms(2) by (auto simp: ok_iff)
  obtain rc f' s' where r: "mad_frame_decode eng f s = (rc, f', s')"
    by (cases "mad_frame_decode eng f s")
  let ?h' = "put_block (ptr_Stream d) (StreamBlock s')
               (put_block (ptr_Frame d) (FrameBlock f') h)"
  have nz: "ptr_Stream d \<noteq> 0"
    using s by (simp add: get_stream_iff)
  have run: "DecodeFrame eng h d = Inr (rc \<noteq> - 1, ?h')"
    by (simp add: DecodeFrame_def and_then_def f s r)
  have st: "get_stream ?h' (ptr_Stream d) = Inr s'"
    using nz by (rule get_stream_put_same)
  have eg: "Error_get ?h' d = Inr (error s')"
    by (simp add: Error_get_def and_then_def st cast_to_Error_def)
  have code: "(rc \<noteq> - 1) = (fst (mad_frame_decode eng f s) \<noteq> - 1)"
    by (simp add: r)
  have succ: "(rc \<noteq> - 1) = succeeded (frame_decode eng f s)"
    using r by (cases "frame_decode eng f s") (auto simp: mad_frame_decode_def)
  have fail: "\<not> (rc \<noteq> - 1) \<longrightarrow>
      (\<exists>cause f'' s''. frame_decode eng f s = Failed cause f'' s''
         \<and> Error_get ?h' d = Inr (Error_value cause))"
    using r eg by (cases "frame_decode eng f s") (auto simp: mad_frame_decode_def)
  from f s run code succ fail show ?thesis
    by blast
qed

text \<open>
  The sample session has no input: the engine's decode fails there, the cause being
  \<open>BufferLength\<close>; \<open>DecodeFrame\<close> returns false and \<open>Error\<close> reads \<open>BufferLength\<close>.
  Once \<open>SetInput\<close> has installed two bytes at address \<open>100\<close>, the engine's decode
  succeeds, \<open>DecodeFrame\<close> returns true and \<open>Error\<close> still reads \<open>None\<close>.
\<close>

theorem DecodeFrame_result_witness:
  "ok (get_frame sample_heap (ptr_Frame sample_decoder))
   \<and> ok (get_stream sample_heap (ptr_Stream sample_decoder))
   \<and> frame_decode sample_engine 0 sample_stream = Failed BufferLength 0 sample_stream
   \<and> (\<exists>h'. DecodeFrame sample_engine sample_heap sample_decoder = Inr (False, h')
          \<and> Error_get sample_heap sample_decoder = Inr (Error_value Error_None)
          \<and> Error_get h' sample_decoder = Inr (Error_value BufferLength))
   \<and> (\<exists>h1 h2. SetInput sample_engine sample_heap sample_decoder 100 2 = Inr h1
          \<and> DecodeFrame sample_engine h1 sample_decoder = Inr (True, h2)
          \<and> Error_get h2 sample_decoder = Inr (Error_value Error_None))"
proof -
  have okf: "ok (get_frame sample_heap (ptr_Frame sample_decoder))"
    and oks: "ok (get_stream sample_heap (ptr_Stream sample_decoder))"
    by (simp_all add: get_sample)
  have out: "frame_decode sample_engine 0 sample_stream = Failed BufferLength 0 sample_stream"
    by (simp add: sample_engine_def sample_stream_def)
  have before: "Error_get sample_heap sample_decoder = Inr (Error_value Error_None)"
    by (simp add: Error_get_def and_then_def get_sample cast_to_Error_def sample_stream_def)
  have failing: "\<exists>h'. DecodeFrame sample_engine sample_heap sample_decoder = Inr (False, h')
          \<and> Error_get sample_heap sample_decoder = Inr (Error_value Error_None)
          \<and> Error_get h' sample_decoder = Inr (Error_value BufferLength)"
    using DecodeFrame_result [OF okf oks, of sample_engine] out before
    by (auto simp: get_sample)
  let ?s1 = "\<lparr>this_frame = 100, next_frame = 100, error = 0, stream_rest = 2\<rparr> :: nat mad_stream"
  let ?h1 = "put_block (ptr_Stream sample_decoder) (StreamBlock ?s1) sample_heap"
  have nz: "ptr_Stream sample_decoder \<noteq> 0"
    by (simp add: sample_decoder_def)
  have input: "SetInput sample_engine sample_heap sample_decoder 100 2 = Inr ?h1"
    by (simp add: SetInput_def call_stream_def and_then_def get_sample sample_engine_def
        sample_stream_def)
  have s1: "get_stream ?h1 (ptr_Stream sample_decoder) = Inr ?s1"
    using nz by (rule get_stream_put_same)
  have f1: "get_frame ?h1 (ptr_Frame sample_decoder) = Inr 0"
    by (simp add: get_frame_put_stream [OF get_sample(1)] get_sample)
  have out1: "frame_decode sample_engine 0 ?s1 =
      Decoded 1 \<lparr>this_frame = 100, next_frame = 101, error = 0, stream_rest = 1\<rparr>"
    by (simp add: sample_engine_def)
  obtain b h2 where run: "DecodeFrame sample_engine ?h1 sample_decoder = Inr (b, h2)"
    and b: "b = succeeded (frame_decode sample_engine 0 ?s1)"
    using DecodeFrame_result [of ?h1 sample_decoder sample_engine] s1 f1 by auto
  have true: "b = True"
    using b out1 by simp
  have "h2 = put_block (ptr_Stream sample_decoder)
      (StreamBlock \<lparr>this_frame = 100, next_frame = 101, error = 0, stream_rest = 1\<rparr>)
      (put_block (ptr_Frame sample_decoder) (FrameBlock 1) ?h1)"
    using run by (simp add: DecodeFrame_def and_then_def s1 f1 mad_frame_decode_def out1)
  then have "get_stream h2 (ptr_Stream sample_decoder)
      = Inr \<lparr>this_frame = 100, next_frame = 101, error = 0, stream_rest = 1\<rparr>"
    using nz by (simp add: get_stream_put_same)
  then have after: "Error_get h2 sample_decoder = Inr (Error_value Error_None)"
    by (simp add: Error_get_def and_then_def cast_to_Error_def)
  have succeeding: "\<exists>h1 h2. SetInput sample_engine sample_heap sample_decoder 100 2 = Inr h1
          \<and> DecodeFrame sample_engine h1 sample_decoder = Inr (True, h2)
          \<and> Error_get h2 sample_decoder = Inr (Error_value Error_None)"
    using input run true after by blast
  show ?thesis
    using okf oks out failing succeeding by (intro conjI)
qed

subsection \<open>Synthesising a frame\<close>

lemma SynthFrame_runs_iff:
  "ok (SynthFrame eng h d)
     \<longleftrightarrow> ok (get_synth h (ptr_Synth d)) \<and> ok (get_frame h (ptr_Frame d))"
  by (cases "get_synth h (ptr_Synth d)"; cases "get_frame h (ptr_Frame d)")
    (simp_all add: SynthFrame_def and_then_def split: prod.splits)

text \<open>
  C2. \<open>SynthFrame\<close> is a void member: it yields the heap it leaves and no value. In
  every session whose synth and frame pointers are valid, it runs. The engine is handed
  the synth and the frame block only, so the stream block is as before: \<open>CurrentFrame\<close>,
  \<open>NextFrame\<close> and the error code (\<open>Error\<close>, and with it \<open>ErrorRecoverable\<close> and
  \<open>ErrorMessage\<close>) read what they read before the call. The synth block is the one
  that the engine's synthesis returned, and \<open>SampleRate\<close>, \<open>Channels\<close> and \<open>Output\<close>
  read its fields.
\<close>

theorem SynthFrame_effect:
  assumes "ok (get_synth h (ptr_Synth d))"
    and "ok (get_frame h (ptr_Frame d))"
  shows "\<exists>y f h'. get_synth h (ptr_Synth d) = Inr y
           \<and> get_frame h (ptr_Frame d) = Inr f
           \<and> SynthFrame eng h d = Inr h'
           \<and> CurrentFrame h' d = CurrentFrame h d
           \<and> NextFrame h' d = NextFrame h d
           \<and> Error_get h' d = Error_get h d
           \<and> ErrorRecoverable h' d = ErrorRecoverable h d
           \<and> ErrorMessage eng h' d = ErrorMessage eng h d
           \<and> get_stream h' (ptr_Stream d) = get_stream h (ptr_Stream d)
           \<and> get_synth h' (ptr_Synth d) = Inr (fst (mad_synth_frame eng y f))
           \<and> get_frame h' (ptr_Frame d) = Inr (snd (mad_synth_frame eng y f))
           \<and> SampleRate h' d = Inr (samplerate (pcm (fst (mad_synth_frame eng y f))))
           \<and> Channels h' d = Inr (channels (pcm (fst (mad_synth_frame eng y f))))
           \<and> Output h' d = Inr (samples (pcm (fst (mad_synth_frame eng y f))))"
proof -
  obtain y where y: "get_synth h (ptr_Synth d) = Inr y"
    using assms(1) by (auto simp: ok_iff)
  obtain f where f: "get_frame h (ptr_Frame d) = Inr f"
    using assms(2) by (auto simp: ok_iff)
  obtain y' f' where r: "mad_synth_frame eng y f = (y', f')"
    by (cases "mad_synth_frame eng y f")
  let ?h1 = "put_block (ptr_Synth d) (SynthBlock y') h"
  let ?h' = "put_block (ptr_Frame d) (FrameBlock f') ?h1"
  have run: "SynthFrame eng h d = Inr ?h'"
    by (simp add: SynthFrame_def and_then_def y f r)
  have f1: "get_frame ?h1 (ptr_Frame d) = Inr f"
    using f by (simp add: get_frame_put_synth [OF y])
  have stream: "get_stream ?h' (ptr_Stream d) = get_stream h (ptr_Stream d)"
    by (simp add: get_stream_put_frame [OF f1] get_stream_put_synth [OF y])
  have nzy: "ptr_Synth d \<noteq> 0"
    using y by (simp add: get_synth_iff)
  have nzf: "ptr_Frame d \<noteq> 0"
    using f by (simp add: get_frame_iff)
  have synth: "get_synth ?h' (ptr_Synth d) = Inr (fst (mad_synth_frame eng y f))"
    by (simp add: get_synth_put_frame [OF f1] get_synth_put_same [OF nzy] r)
  have frame: "get_frame ?h' (ptr_Frame d) = Inr (snd (mad_synth_frame eng y f))"
    by (simp add: get_frame_put_same [OF nzf] r)
  have "CurrentFrame ?h' d = CurrentFrame h d"
    by (simp add: CurrentFrame_def stream)
  moreover have "NextFrame ?h' d = NextFrame h d"
    by (simp add: NextFrame_def stream)
  moreover have "Error_get ?h' d = Error_get h d"
    by (simp add: Error_get_def stream)
  moreover have "ErrorRecoverable ?h' d = ErrorRecoverable h d"
    by (simp add: ErrorRecoverable_def stream)
  moreover have "ErrorMessage eng ?h' d = ErrorMessage eng h d"
    by (simp add: ErrorMessage_def stream)
  moreover have "SampleRate ?h' d = Inr (samplerate (pcm (fst (mad_synth_frame eng y f))))"
    by (simp add: SampleRate_def and_then_def synth)
  moreover have "Channels ?h' d = Inr (channels (pcm (fst (mad_synth_frame eng y f))))"
    by (simp add: Channels_def and_then_def synth)
  moreover have "Output ?h' d = Inr (samples (pcm (fst (mad_synth_frame eng y f))))"
    by (simp add: Output_def and_then_def synth)
  ultimately show ?thesis
    using y f run stream synth frame by blast
qed

text \<open>
  In the sample session \<open>SynthFrame\<close> runs, and runs again on the session it leaves.
  After each call the cursor is still at \<open>0\<close> and the error still \<open>None\<close>, and the
  sample rate, the channel count and the output address are those the sample engine
  writes.
\<close>

theorem SynthFrame_effect_witness:
  "ok (get_synth sample_heap (ptr_Synth sample_decoder))
   \<and> ok (get_frame sample_heap (ptr_Frame sample_decoder))
   \<and> SampleRate sample_heap sample_decoder = Inr 0
   \<and> (\<exists>h1 h2. SynthFrame sample_engine sample_heap sample_decoder = Inr h1
          \<and> CurrentFrame h1 sample_decoder = Inr 0
          \<and> NextFrame h1 sample_decoder = Inr 0
          \<and> Error_get h1 sample_decoder = Inr (Error_value Error_None)
          \<and> SampleRate h1 sample_decoder = Inr 44100
          \<and> Channels h1 sample_decoder = Inr 2
          \<and> Output h1 sample_decoder = Inr 64
          \<and> SynthFrame sample_engine h1 sample_decoder = Inr h2
          \<and> CurrentFrame h2 sample_decoder = Inr 0
          \<and> Error_get h2 sample_decoder = Inr (Error_value Error_None)
          \<and> SampleRate h2 sample_decoder = Inr 44100
          \<and> Channels h2 sample_decoder = Inr 2
          \<and> Output h2 sample_decoder = Inr 64)"
proof -
  have oky: "ok (get_synth sample_heap (ptr_Synth sample_decoder))"
    and okf: "ok (get_frame sample_heap (ptr_Frame sample_decoder))"
    by (simp_all add: get_sample)
  have before: "CurrentFrame sample_heap sample_decoder = Inr 0"
    "NextFrame sample_heap sample_decoder = Inr 0"
    "Error_get sample_heap sample_decoder = Inr (Error_value Error_None)"
    "SampleRate sample_heap sample_decoder = Inr 0"
    by (simp_all add: CurrentFrame_def NextFrame_def Error_get_def SampleRate_def
        and_then_def get_sample cast_to_Error_def sample_stream_def sample_synth_def)
  have pcm: "\<And>y f. pcm (fst (mad_synth_frame sample_engine y f))
      = \<lparr>samplerate = 44100, channels = 2, samples = 64\<rparr>"
    by (simp add: sample_engine_def)
  obtain h1 where run1: "SynthFrame sample_engine sample_heap sample_decoder = Inr h1"
    and keep1: "CurrentFrame h1 sample_decoder = CurrentFrame sample_heap sample_decoder"
      "NextFrame h1 sample_decoder = NextFrame sample_heap sample_decoder"
      "Error_get h1 sample_decoder = Error_get sample_heap sample_decoder"
    and y1: "ok (get_synth h1 (ptr_Synth sample_decoder))"
    and f1: "ok (get_frame h1 (ptr_Frame sample_decoder))"
    and new1: "SampleRate h1 sample_decoder = Inr 44100"
      "Channels h1 sample_decoder = Inr 2" "Output h1 sample_decoder = Inr 64"
    using SynthFrame_effect [OF oky okf, of sample_engine] by (auto simp: pcm)
  obtain h2 where run2: "SynthFrame sample_engine h1 sample_decoder = Inr h2"
    and keep2: "CurrentFrame h2 sample_decoder = CurrentFrame h1 sample_decoder"
      "Error_get h2 sample_decoder = Error_get h1 sample_decoder"
    and new2: "SampleRate h2 sample_decoder = Inr 44100"
      "Channels h2 sample_decoder = Inr 2" "Output h2 sample_decoder = Inr 64"
    using SynthFrame_effect [OF y1 f1, of sample_engine] by (auto simp: pcm)
  have "\<exists>h1 h2. SynthFrame sample_engine sample_heap sample_decoder = Inr h1
          \<and> CurrentFrame h1 sample_decoder = Inr 0
          \<and> NextFrame h1 sample_decoder = Inr 0
          \<and> Error_get h1 sample_decoder = Inr (Error_value Error_None)
          \<and> SampleRate h1 sample_decoder = Inr 44100
          \<and> Channels h1 sample_decoder = Inr 2
          \<and> Output h1 sample_decoder = Inr 64
          \<and> SynthFrame sample_engine h1 sample_decoder = Inr h2
          \<and> CurrentFrame h2 sample_decoder = Inr 0
          \<and> Error_get h2 sample_decoder = Inr (Error_value Error_None)
          \<and> SampleRate h2 sample_decoder = Inr 44100
          \<and> Channels h2 sample_decoder = Inr 2
          \<and> Output h2 sample_decoder = Inr 64"
    using run1 run2 keep1 keep2 new1 new2 before
    by (intro exI [of _ h1] exI [of _ h2]) simp
  then show ?thesis
    using oky okf before(4) by (intro conjI)
qed

subsection \<open>The error properties\<close>

lemma Error_set_runs:
  assumes s: "get_stream h (ptr_Stream d) = Inr s"
  shows "\<exists>h'. Error_set v h d = Inr h'
           \<and> get_stream h' (ptr_Stream d) = Inr (s\<lparr>error := v\<rparr>)
           \<and> (\<forall>x. get_frame h' x = get_frame h x)
           \<and> (\<forall>x. get_synth h' x = get_synth h x)"
proof -
  let ?h' = "put_block (ptr_Stream d) (StreamBlock (s\<lparr>error := v\<rparr>)) h"
  have nz: "ptr_Stream d \<noteq> 0"
    using s by (simp add: get_stream_iff)
  have "Error_set v h d = Inr ?h'"
    by (simp add: Error_set_def call_stream_def and_then_def s cast_to_mad_error_def)
  then show ?thesis
    using get_stream_put_same [OF nz] get_frame_put_stream [OF s] get_synth_put_stream [OF s]
    by simp
qed

lemma malformation_cases:
  "stream_content_malformation e =
     (e \<in> {LostSync, BadLayer, BadBitRate, BadSampleRate, BadEmphasis, BadCRC, BadBitAlloc,
            BadScaleFactor, BadMode, BadFrameLength, BadBigValues, BadBlockType, BadSCFSI,
            BadData, BadAudioLength, BadHuffmanTable, BadHuffmanData, BadStero})"
  by (cases e) (simp_all add: stream_content_malformation_def)

lemma MAD_RECOVERABLE_of_code:
  "Error_of_code c = Some e \<Longrightarrow> MAD_RECOVERABLE c = stream_content_malformation e"
  by (simp add: MAD_RECOVERABLE_def)

lemma MAD_RECOVERABLE_value:
  "MAD_RECOVERABLE (Error_value e) = stream_content_malformation e"
  by (rule MAD_RECOVERABLE_of_code) (rule Error_of_code_value)

lemma Error_get_Inr:
  assumes "Error_get h d = Inr v"
  shows "\<exists>s. get_stream h (ptr_Stream d) = Inr s \<and> error s = v"
proof (cases "get_stream h (ptr_Stream d)")
  case (Inl x)
  then show ?thesis
    using assms by (simp add: Error_get_def and_then_def)
next
  case (Inr s)
  then have "error s = v"
    using assms by (simp add: Error_get_def and_then_def cast_to_Error_def)
  then show ?thesis
    using Inr by blast
qed

text \<open>
  C6. In every session whose stream pointer is valid, and for every value \<open>e\<close> of the
  managed enumeration (each of the 22 enumerators, as \<open>Error_value\<close> of it, and every
  value without a name), setting \<open>Error\<close> to \<open>e\<close> runs, and reading \<open>Error\<close>
  afterwards returns \<open>e\<close> (for \<open>None\<close>: the error is cleared). The other fields a
  caller can read, \<open>CurrentFrame\<close>, \<open>NextFrame\<close>, \<open>SampleRate\<close>, \<open>Channels\<close> and
  \<open>Output\<close>, read what they read before.
\<close>

theorem Error_set_then_get:
  assumes "ok (get_stream h (ptr_Stream d))"
  shows "\<exists>h'. Error_set e h d = Inr h'
           \<and> Error_get h' d = Inr e
           \<and> CurrentFrame h' d = CurrentFrame h d
           \<and> NextFrame h' d = NextFrame h d
           \<and> SampleRate h' d = SampleRate h d
           \<and> Channels h' d = Channels h d
           \<and> Output h' d = Output h d"
proof -
  obtain s where s: "get_stream h (ptr_Stream d) = Inr s"
    using assms by (auto simp: ok_iff)
  obtain h' where run: "Error_set e h d = Inr h'"
    and s': "get_stream h' (ptr_Stream d) = Inr (s\<lparr>error := e\<rparr>)"
    and y': "\<forall>x. get_synth h' x = get_synth h x"
    using Error_set_runs [OF s] by blast
  have "Error_get h' d = Inr e"
    by (simp add: Error_get_def and_then_def s' cast_to_Error_def)
  moreover have "CurrentFrame h' d = CurrentFrame h d"
    by (simp add: CurrentFrame_def and_then_def s s')
  moreover have "NextFrame h' d = NextFrame h d"
    by (simp add: NextFrame_def and_then_def s s')
  moreover have "SampleRate h' d = SampleRate h d"
    by (simp add: SampleRate_def y')
  moreover have "Channels h' d = Channels h d"
    by (simp add: Channels_def y')
  moreover have "Output h' d = Output h d"
    by (simp add: Output_def y')
  ultimately show ?thesis
    using run by blast
qed

text \<open>
  In the sample session, \<open>Error\<close> set to \<open>BadCRC\<close> reads \<open>BadCRC\<close>, and set to
  \<open>None\<close> after that reads \<open>None\<close>.
\<close>

theorem Error_set_then_get_witness:
  "ok (get_stream sample_heap (ptr_Stream sample_decoder))
   \<and> (\<exists>h1 h2. Error_set (Error_value BadCRC) sample_heap sample_decoder = Inr h1
          \<and> Error_get h1 sample_decoder = Inr (Error_value BadCRC)
          \<and> CurrentFrame h1 sample_decoder = CurrentFrame sample_heap sample_decoder
          \<and> NextFrame h1 sample_decoder = NextFrame sample_heap sample_decoder
          \<and> SampleRate h1 sample_decoder = SampleRate sample_heap sample_decoder
          \<and> Channels h1 sample_decoder = Channels sample_heap sample_decoder
          \<and> Output h1 sample_decoder = Output sample_heap sample_decoder
          \<and> Error_set (Error_value Error_None) h1 sample_decoder = Inr h2
          \<and> Error_get h2 sample_decoder = Inr (Error_value Error_None))"
proof -
  have valid: "ok (get_stream sample_heap (ptr_Stream sample_decoder))"
    by (simp add: get_sample)
  obtain h1 where h1: "Error_set (Error_value BadCRC) sample_heap sample_decoder = Inr h1"
    "Error_get h1 sample_decoder = Inr (Error_value BadCRC)"
    "CurrentFrame h1 sample_decoder = CurrentFrame sample_heap sample_decoder"
    "NextFrame h1 sample_decoder = NextFrame sample_heap sample_decoder"
    "SampleRate h1 sample_decoder = SampleRate sample_heap sample_decoder"
    "Channels h1 sample_decoder = Channels sample_heap sample_decoder"
    "Output h1 sample_decoder = Output sample_heap sample_decoder"
    using Error_set_then_get [OF valid, of "Error_value BadCRC"] by blast
  have valid1: "ok (get_stream h1 (ptr_Stream sample_decoder))"
    using Error_get_Inr [OF h1(2)] by auto
  obtain h2 where h2: "Error_set (Error_value Error_None) h1 sample_decoder = Inr h2"
    "Error_get h2 sample_decoder = Inr (Error_value Error_None)"
    using Error_set_then_get [OF valid1, of "Error_value Error_None"] by blast
  show ?thesis
    using valid h1 h2 by blast
qed

text \<open>
  C9. The three error observables are read from the one error code stored in the
  stream block: in every session whose stream pointer is valid, \<open>Error\<close> is that code,
  \<open>ErrorRecoverable\<close> is \<open>MAD_RECOVERABLE\<close> of that code and \<open>ErrorMessage\<close> is the
  engine's message for that code. So right after \<open>Error\<close> is set to any value \<open>e\<close>
  (an enumerator, as \<open>Error_value\<close> of it, or a value without a name), \<open>Error\<close> reads
  \<open>e\<close>, \<open>ErrorRecoverable\<close> reads the classification of \<open>e\<close>, and \<open>ErrorMessage\<close>
  reads the message for \<open>e\<close>.
\<close>

theorem error_observables_consistent:
  assumes s: "get_stream h (ptr_Stream d) = Inr s"
  shows "Error_get h d = Inr (error s)
       \<and> ErrorRecoverable h d = Inr (MAD_RECOVERABLE (error s))
       \<and> ErrorMessage eng h d = Inr (error_message eng (error s))
       \<and> (\<exists>h'. Error_set e h d = Inr h'
              \<and> Error_get h' d = Inr e
              \<and> ErrorRecoverable h' d = Inr (MAD_RECOVERABLE e)
              \<and> ErrorMessage eng h' d = Inr (error_message eng e))"
proof -
  obtain h' where run: "Error_set e h d = Inr h'"
    and s': "get_stream h' (ptr_Stream d) = Inr (s\<lparr>error := e\<rparr>)"
    using Error_set_runs [OF s] by blast
  have "Error_get h d = Inr (error s)"
    by (simp add: Error_get_def and_then_def s cast_to_Error_def)
  moreover have "ErrorRecoverable h d = Inr (MAD_RECOVERABLE (error s))"
    by (simp add: ErrorRecoverable_def and_then_def s)
  moreover have "ErrorMessage eng h d = Inr (error_message eng (error s))"
    by (simp add: ErrorMessage_def and_then_def s mad_stream_errorstr_def)
  moreover have "Error_get h' d = Inr e"
    by (simp add: Error_get_def and_then_def s' cast_to_Error_def)
  moreover have "ErrorRecoverable h' d = Inr (MAD_RECOVERABLE e)"
    by (simp add: ErrorRecoverable_def and_then_def s')
  moreover have "ErrorMessage eng h' d = Inr (error_message eng e)"
    by (simp add: ErrorMessage_def and_then_def s' mad_stream_errorstr_def)
  ultimately show ?thesis
    using run by blast
qed

text \<open>
  In the sample session, after \<open>Error\<close> is set to \<open>BadHuffmanData\<close> the three
  observables are \<open>BadHuffmanData\<close>, recoverable, and the sample engine's message.
\<close>

theorem error_observables_consistent_witness:
  "get_stream sample_heap (ptr_Stream sample_decoder) = Inr sample_stream
   \<and> Error_get sample_heap sample_decoder = Inr (Error_value Error_None)
   \<and> ErrorRecoverable sample_heap sample_decoder = Inr False
   \<and> ErrorMessage sample_engine sample_heap sample_decoder = Inr ''no error''
   \<and> (\<exists>h'. Error_set (Error_value BadHuffmanData) sample_heap sample_decoder = Inr h'
          \<and> Error_get h' sample_decoder = Inr (Error_value BadHuffmanData)
          \<and> ErrorRecoverable h' sample_decoder = Inr True
          \<and> ErrorMessage sample_engine h' sample_decoder = Inr ''error'')"
proof -
  have r0: "MAD_RECOVERABLE 0 = False"
    using MAD_RECOVERABLE_value [of Error_None]
    by (simp add: stream_content_malformation_def)
  have r1: "MAD_RECOVERABLE 0x0238 = True"
    using MAD_RECOVERABLE_value [of BadHuffmanData]
    by (simp add: stream_content_malformation_def)
  show ?thesis
    using error_observables_consistent
      [OF get_sample(1), of sample_engine "Error_value BadHuffmanData"] get_sample(1) r0 r1
    by (simp add: sample_stream_def sample_engine_def)
qed

text \<open>
  C4. Whenever the current error code is the enumerator \<open>e\<close>, \<open>ErrorRecoverable\<close>
  returns true exactly when \<open>e\<close> is one of the eighteen stream-content malformations,
  and false for the fatal errors \<open>BufferLength\<close>, \<open>BufferData\<close> and \<open>Memory\<close>. The
  classification is that of \<open>MAD_RECOVERABLE\<close> as the spec gives it.
\<close>

theorem ErrorRecoverable_classification:
  assumes "Error_get h d = Inr (Error_value e)"
  shows "ErrorRecoverable h d =
           Inr (e \<in> {LostSync, BadLayer, BadBitRate, BadSampleRate, BadEmphasis, BadCRC,
                      BadBitAlloc, BadScaleFactor, BadMode, BadFrameLength, BadBigValues,
                      BadBlockType, BadSCFSI, BadData, BadAudioLength, BadHuffmanTable,
                      BadHuffmanData, BadStero})
       \<and> (e \<in> {BufferLength, BufferData, Memory} \<longrightarrow> ErrorRecoverable h d = Inr False)"
proof -
  obtain s where s: "get_stream h (ptr_Stream d) = Inr s"
    and c: "error s = Error_value e"
    using Error_get_Inr [OF assms] by blast
  have "ErrorRecoverable h d = Inr (stream_content_malformation e)"
    by (simp add: ErrorRecoverable_def and_then_def s c MAD_RECOVERABLE_value)
  then have main: "ErrorRecoverable h d =
           Inr (e \<in> {LostSync, BadLayer, BadBitRate, BadSampleRate, BadEmphasis, BadCRC,
                      BadBitAlloc, BadScaleFactor, BadMode, BadFrameLength, BadBigValues,
                      BadBlockType, BadSCFSI, BadData, BadAudioLength, BadHuffmanTable,
                      BadHuffmanData, BadStero})"
    by (simp only: malformation_cases)
  have "e \<in> {BufferLength, BufferData, Memory} \<longrightarrow> ErrorRecoverable h d = Inr False"
    using main by auto
  with main show ?thesis by (rule conjI)
qed

text \<open>
  After the failed decode of the sample session the error is \<open>BufferLength\<close>, which is
  not recoverable; once the error is set to \<open>LostSync\<close> it is recoverable.
\<close>

theorem ErrorRecoverable_classification_witness:
  "\<exists>h1 h2. DecodeFrame sample_engine sample_heap sample_decoder = Inr (False, h1)
        \<and> Error_get h1 sample_decoder = Inr (Error_value BufferLength)
        \<and> ErrorRecoverable h1 sample_decoder = Inr False
        \<and> Error_set (Error_value LostSync) h1 sample_decoder = Inr h2
        \<and> Error_get h2 sample_decoder = Inr (Error_value LostSync)
        \<and> ErrorRecoverable h2 sample_decoder = Inr True"
proof -
  have r: "mad_frame_decode sample_engine 0 sample_stream
             = (- 1, 0, sample_stream\<lparr>error := 1\<rparr>)"
    by (simp add: mad_frame_decode_def sample_engine_def sample_stream_def)
  let ?s1 = "sample_stream\<lparr>error := 1\<rparr>"
  let ?h1 = "put_block (ptr_Stream sample_decoder) (StreamBlock ?s1)
               (put_block (ptr_Frame sample_decoder) (FrameBlock 0) sample_heap)"
  have nz: "ptr_Stream sample_decoder \<noteq> 0"
    by (simp add: sample_decoder_def)
  have run: "DecodeFrame sample_engine sample_heap sample_decoder = Inr (False, ?h1)"
    by (simp add: DecodeFrame_def and_then_def get_sample r)
  have s1: "get_stream ?h1 (ptr_Stream sample_decoder) = Inr ?s1"
    using nz by (rule get_stream_put_same)
  then have e1: "Error_get ?h1 sample_decoder = Inr (Error_value BufferLength)"
    by (simp add: Error_get_def and_then_def cast_to_Error_def)
  have c1: "ErrorRecoverable ?h1 sample_decoder = Inr False"
    using ErrorRecoverable_classification [OF e1] by simp
  let ?h2 = "put_block (ptr_Stream sample_decoder)
               (StreamBlock (?s1\<lparr>error := Error_value LostSync\<rparr>)) ?h1"
  have set2: "Error_set (Error_value LostSync) ?h1 sample_decoder = Inr ?h2"
    by (simp add: Error_set_def call_stream_def and_then_def s1 cast_to_mad_error_def)
  have "get_stream ?h2 (ptr_Stream sample_decoder)
      = Inr (?s1\<lparr>error := Error_value LostSync\<rparr>)"
    using nz by (rule get_stream_put_same)
  then have e2: "Error_get ?h2 sample_decoder = Inr (Error_value LostSync)"
    by (simp add: Error_get_def and_then_def cast_to_Error_def)
  have c2: "ErrorRecoverable ?h2 sample_decoder = Inr True"
    using ErrorRecoverable_classification [OF e2] by simp
  show ?thesis
    using run e1 c1 set2 e2 c2 by blast
qed

text \<open>
  C10. When the current error code is \<open>None\<close>, \<open>ErrorRecoverable\<close> returns false; in
  particular it returns false right after the error is cleared by setting \<open>Error\<close> to
  \<open>None\<close>.
\<close>

theorem ErrorRecoverable_None:
  assumes "ok (get_stream h (ptr_Stream d))"
  shows "(Error_get h d = Inr (Error_value Error_None) \<longrightarrow> ErrorRecoverable h d = Inr False)
       \<and> (\<exists>h'. Error_set (Error_value Error_None) h d = Inr h'
              \<and> Error_get h' d = Inr (Error_value Error_None)
              \<and> ErrorRecoverable h' d = Inr False)"
proof -
  have none: "\<not> MAD_RECOVERABLE (Error_value Error_None)"
    by (simp only: MAD_RECOVERABLE_value) (simp add: stream_content_malformation_def)
  have first: "Error_get h d = Inr (Error_value Error_None) \<longrightarrow> ErrorRecoverable h d = Inr False"
  proof
    assume "Error_get h d = Inr (Error_value Error_None)"
    then obtain s where s: "get_stream h (ptr_Stream d) = Inr s"
      and c: "error s = Error_value Error_None"
      using Error_get_Inr by blast
    show "ErrorRecoverable h d = Inr False"
      using none by (simp add: ErrorRecoverable_def and_then_def s c)
  qed
  obtain s where s: "get_stream h (ptr_Stream d) = Inr s"
    using assms by (auto simp: ok_iff)
  obtain h' where run: "Error_set (Error_value Error_None) h d = Inr h'"
    and s': "get_stream h' (ptr_Stream d) = Inr (s\<lparr>error := Error_value Error_None\<rparr>)"
    using Error_set_runs [OF s] by blast
  have get: "Error_get h' d = Inr (Error_value Error_None)"
    by (simp add: Error_get_def and_then_def s' cast_to_Error_def)
  have "ErrorRecoverable h' d = Inr False"
    using none by (simp add: ErrorRecoverable_def and_then_def s')
  with first run get show ?thesis by blast
qed

text \<open>The sample session, as initialised, has the error \<open>None\<close> and is not recoverable.\<close>

theorem ErrorRecoverable_None_witness:
  "ok (get_stream sample_heap (ptr_Stream sample_decoder))
   \<and> Error_get sample_heap sample_decoder = Inr (Error_value Error_None)
   \<and> ErrorRecoverable sample_heap sample_decoder = Inr False"
proof -
  have valid: "ok (get_stream sample_heap (ptr_Stream sample_decoder))"
    by (simp add: get_sample)
  have e: "Error_get sample_heap sample_decoder = Inr (Error_value Error_None)"
    by (simp add: Error_get_def and_then_def get_sample cast_to_Error_def sample_stream_def)
  show ?thesis
    using valid e ErrorRecoverable_None [OF valid] by blast
qed

subsection \<open>Acquisition and release\<close>

text \<open>
  C7. For every engine and in every heap, \<open>Initialize\<close> runs and acquires three
  distinct blocks that were not held before, one for the stream, one for the frame and
  one for the synth. \<open>Terminate\<close> then runs the three finish routines and returns with
  all three blocks still held: the header obtains them with \<open>new\<close> and has no
  \<open>delete\<close>.
\<close>

theorem Terminate_keeps_blocks_held:
  fixes eng :: "('s::zero, 'f::zero, 'y::zero) engine"
  shows "\<exists>h1 d1 h2. Initialize eng h d = Inr (h1, d1)
           \<and> distinct [ptr_Stream d1, ptr_Frame d1, ptr_Synth d1]
           \<and> \<not> held h (ptr_Stream d1) \<and> \<not> held h (ptr_Frame d1) \<and> \<not> held h (ptr_Synth d1)
           \<and> held h1 (ptr_Stream d1) \<and> held h1 (ptr_Frame d1) \<and> held h1 (ptr_Synth d1)
           \<and> Terminate eng h1 d1 = Inr h2
           \<and> held h2 (ptr_Stream d1) \<and> held h2 (ptr_Frame d1) \<and> held h2 (ptr_Synth d1)"
proof -
  obtain h1 d1 where init: "Initialize eng h d = Inr (h1, d1)"
    and ok1: "initialized h1 d1"
    and dist: "distinct [ptr_Stream d1, ptr_Frame d1, ptr_Synth d1]"
    and fresh: "\<not> held h (ptr_Stream d1)" "\<not> held h (ptr_Frame d1)" "\<not> held h (ptr_Synth d1)"
    using Initialize_runs [of eng h d] by blast
  have held1: "held h1 (ptr_Stream d1)" "held h1 (ptr_Frame d1)" "held h1 (ptr_Synth d1)"
    using initialized_held [OF ok1] by simp_all
  obtain h2 where fin: "Terminate eng h1 d1 = Inr h2"
    and keep: "\<forall>x. held h2 x = held h1 x"
    using Terminate_runs [OF ok1] by blast
  have held2: "held h2 (ptr_Stream d1)" "held h2 (ptr_Frame d1)" "held h2 (ptr_Synth d1)"
    using held1 keep by simp_all
  show ?thesis
    using init dist fresh held1 fin held2 by blast
qed

text \<open>
  The sample session: \<open>Initialize\<close> in the empty heap acquires the blocks at \<open>1\<close>,
  \<open>2\<close> and \<open>3\<close>, and after \<open>Terminate\<close> the three are still held.
\<close>

theorem Terminate_keeps_blocks_held_sample:
  "Initialize sample_engine [] new_Decoder = Inr (sample_heap, sample_decoder)
   \<and> (\<exists>h2. Terminate sample_engine sample_heap sample_decoder = Inr h2
          \<and> held h2 1 \<and> held h2 2 \<and> held h2 3)"
  using Terminate_keeps_blocks_held [of sample_engine "[]" new_Decoder]
  by (auto simp: Initialize_sample sample_decoder_def)

subsection \<open>The frame size constant\<close>

text \<open>The literal \<open>FrameSampleCount\<close> is 1152.\<close>

lemma FrameSampleCount_value: "FrameSampleCount = 1152"
  by (simp add: FrameSampleCount_def)

end
